theory Spec2Isabelle
  imports Complex_Main
begin

section \<open>Python values, exceptions and library functions\<close>

text \<open>
  The proof that travels from the prover to the verifier is a Python dictionary with
  string keys (\<^verbatim>\<open>proof: Dict\<close>); after a round trip through a JSON file its values are
  \<^verbatim>\<open>None\<close>, booleans, integers, floats, strings, lists and dictionaries. \<open>pyval\<close> is
  this universe. Python integers are unbounded (\<open>int\<close>); a float is a real number or one
  of the three special values; a string is a list of characters, each \<open>char\<close> standing
  for one code point.
\<close>

datatype pyfloat = FNum real | FInf | FNegInf | FNan

datatype pyval =
    PNone
  | PBool bool
  | PInt int
  | PFloat pyfloat
  | PStr string
  | PList "pyval list"
  | PDict "(string \<times> pyval) list"

type_synonym proof_dict = "string \<rightharpoonup> pyval"

text \<open>
  Exceptions are values. \<open>ValueError\<close> and \<open>KeyError\<close> carry their argument; a
  \<open>TypeError\<close> carries the operation that refused its operand (\<open>''len''\<close>, \<open>''iter''\<close>,
  \<open>''in''\<close>, \<open>''+''\<close>, \<open>''>=''\<close>) and the operand. \<open>RecursionError\<close> is what the
  interpreter raises when a call would exceed its recursion limit.
\<close>

datatype pyexn =
    ValueError string
  | KeyError string
  | TypeError string pyval
  | RecursionError

text \<open>
  What the code takes from the Python library and the interpreter is a parameter of the
  model: \<open>sha256_hexdigest s\<close> stands for
  \<^verbatim>\<open>hashlib.sha256(s.encode()).hexdigest()\<close>, \<open>repr_of v\<close> for \<^verbatim>\<open>str(v)\<close> on a float, a
  list or a dictionary, and \<open>type_error_str\<close> for the interpreter's text of a
  \<open>TypeError\<close>.
\<close>

record pylib =
  sha256_hexdigest :: "string \<Rightarrow> string"
  repr_of :: "pyval \<Rightarrow> string"
  type_error_str :: "string \<Rightarrow> pyval \<Rightarrow> string"

text \<open>\<^verbatim>\<open>str(e)\<close> of an exception \<open>e\<close>.\<close>

definition str_exn :: "pylib \<Rightarrow> pyexn \<Rightarrow> string" where
  "str_exn lib e =
     (case e of
        ValueError m \<Rightarrow> m
      | KeyError k \<Rightarrow> [CHR 0x27] @ k @ [CHR 0x27]
      | TypeError opn v \<Rightarrow> type_error_str lib opn v
      | RecursionError \<Rightarrow> ''maximum recursion depth exceeded'')"

subsection \<open>Decimal strings and JSON text\<close>

text \<open>
  \<^verbatim>\<open>str(i)\<close> of an integer: its decimal digits, with a leading minus sign below zero.
  The interpreter's limits on the digits of such a conversion and on memory are outside
  the model.
\<close>

fun str_nat :: "nat \<Rightarrow> string" where
  "str_nat n =
     (if n < 10 then [''0123456789'' ! n]
      else str_nat (n div 10) @ [''0123456789'' ! (n mod 10)])"

declare str_nat.simps [simp del]

definition str_int :: "int \<Rightarrow> string" where
  "str_int i = (if i < 0 then CHR ''-'' # str_nat (nat (- i)) else str_nat (nat i))"

text \<open>\<^verbatim>\<open>str(v)\<close>, also what an f-string writes for \<^verbatim>\<open>{v}\<close>.\<close>

definition py_str :: "pylib \<Rightarrow> pyval \<Rightarrow> string" where
  "py_str lib v =
     (case v of
        PNone \<Rightarrow> ''None''
      | PBool b \<Rightarrow> (if b then ''True'' else ''False'')
      | PInt i \<Rightarrow> str_int i
      | PStr s \<Rightarrow> s
      | _ \<Rightarrow> repr_of lib v)"

text \<open>\<^verbatim>\<open>sep.join(xs)\<close>.\<close>

fun join :: "string \<Rightarrow> string list \<Rightarrow> string" where
  "join sep [] = []"
| "join sep [x] = x"
| "join sep (x # y # ys) = x @ sep @ join sep (y # ys)"

text \<open>
  \<^verbatim>\<open>json.dumps\<close> of a string made of characters that JSON does not escape (the keys of
  the trace, the two operation names and the decimal strings are such): the string
  between double quotes.
\<close>

definition json_quote :: "string \<Rightarrow> string" where
  "json_quote s = [CHR 0x22] @ s @ [CHR 0x22]"

text \<open>\<^verbatim>\<open>json.dumps\<close> of a list of such strings, with the default separators.\<close>

definition json_dumps_strs :: "string list \<Rightarrow> string" where
  "json_dumps_strs xs = ''['' @ join '', '' (map json_quote xs) @ '']''"

section \<open>The prover (prover.py)\<close>

subsection \<open>The trace\<close>

datatype operation = memo_lookup | fib_compute

definition operation_name :: "operation \<Rightarrow> string" where
  "operation_name opn = (case opn of memo_lookup \<Rightarrow> ''memo_lookup'' | fib_compute \<Rightarrow> ''fib_compute'')"

text \<open>One entry of \<^verbatim>\<open>trace_steps\<close>: the dictionary with the keys step, operation, input, output, depth.\<close>

record trace_step =
  step :: nat
  operation :: operation
  "input" :: int
  "output" :: int
  depth :: nat

text \<open>
  \<^verbatim>\<open>ProofTrace\<close>. The code builds \<^verbatim>\<open>inputs\<close> as \<^verbatim>\<open>{'n': n}\<close> and \<^verbatim>\<open>outputs\<close> as
  \<^verbatim>\<open>{'result': result}\<close>; the two fields hold the value under that one key.
\<close>

record ProofTrace =
  steps :: "trace_step list"
  inputs_n :: int
  outputs_result :: int

text \<open>
  The prover and the verifier are built with a security level (128 by default), a natural
  number in the model: for a negative level \<^verbatim>\<open>2 ** self.security_level\<close> would be a float.
\<close>

record STARKProver =
  security_level :: nat
  proof_data :: proof_dict

text \<open>
  \<^verbatim>\<open>fib_with_trace\<close>, the inner function of \<^verbatim>\<open>compute_fibonacci\<close>. It reads and writes
  the enclosing \<^verbatim>\<open>memo\<close> and \<^verbatim>\<open>trace_steps\<close>, which are passed in and returned. It is
  only called on \<open>n \<ge> 0\<close> and on \<open>num - 1\<close>, \<open>num - 2\<close> for \<open>num \<ge> 2\<close>, so \<open>num\<close> is a
  natural number. The left operand of the sum is evaluated first.

  The function calls itself natively, and the interpreter raises \<open>RecursionError\<close> when
  the stack of calls would exceed its recursion limit (\<^verbatim>\<open>sys.getrecursionlimit()\<close>, 1000
  by default; nothing in the repository changes it). \<open>room\<close> is the number of nested
  activations of \<^verbatim>\<open>fib_with_trace\<close> that the limit leaves when \<^verbatim>\<open>compute_fibonacci\<close>
  makes the first call: the limit less the frames already on the stack, so at most 999
  under the default. The argument \<open>d\<close> (\<^verbatim>\<open>depth\<close>) is 0 in the first call and one more in
  every nested call, so the activation at depth \<open>d\<close> is the \<open>(d + 1)\<close>-th nested one and
  it is refused when \<open>room \<le> d\<close>. Nothing catches the exception: it leaves
  \<^verbatim>\<open>fib_with_trace\<close> and \<^verbatim>\<open>compute_fibonacci\<close>.
\<close>

function fib_with_trace ::
  "nat \<Rightarrow> nat \<Rightarrow> nat \<Rightarrow> (nat \<rightharpoonup> int) \<times> trace_step list \<Rightarrow>
     pyexn + (int \<times> ((nat \<rightharpoonup> int) \<times> trace_step list))" where
  "fib_with_trace room num d (memo, trace_steps) =
     (if room \<le> d then Inl RecursionError
      else
        (case memo num of
           Some v \<Rightarrow>
             Inr (v, (memo, trace_steps @
               [\<lparr>step = length trace_steps, operation = memo_lookup,
                 input = int num, output = v, depth = d\<rparr>]))
         | None \<Rightarrow>
             (case
                (if num = 0 then Inr (0, (memo, trace_steps))
                 else if num = 1 then Inr (1, (memo, trace_steps))
                 else
                   (case fib_with_trace room (num - 1) (d + 1) (memo, trace_steps) of
                      Inl e \<Rightarrow> Inl e
                    | Inr (a, s1) \<Rightarrow>
                        (case fib_with_trace room (num - 2) (d + 1) s1 of
                           Inl e \<Rightarrow> Inl e
                         | Inr (b, s2) \<Rightarrow> Inr (a + b, s2))))
              of
                Inl e \<Rightarrow> Inl e
              | Inr (result, (memo', trace_steps')) \<Rightarrow>
                  Inr (result, (memo'(num \<mapsto> result), trace_steps' @
                    [\<lparr>step = length trace_steps', operation = fib_compute,
                      input = int num, output = result, depth = d\<rparr>])))))"
  by pat_completeness auto
termination
  by (relation "measure (\<lambda>(room, num, d, s). num)") auto

declare fib_with_trace.simps [simp del]

definition compute_fibonacci :: "nat \<Rightarrow> int \<Rightarrow> pyexn + (int \<times> ProofTrace)" where
  "compute_fibonacci room n =
     (if n < 0 then Inl (ValueError ''n must be non-negative'')
      else
        (case fib_with_trace room (nat n) 0 (Map.empty, []) of
           Inl e \<Rightarrow> Inl e
         | Inr (result, (memo, trace_steps)) \<Rightarrow>
             Inr (result, \<lparr>steps = trace_steps, inputs_n = n, outputs_result = result\<rparr>)))"

subsection \<open>Commitment, constraint evaluations, challenge, FRI layers\<close>

text \<open>
  \<^verbatim>\<open>json.dumps(trace.to_dict(), sort_keys=True)\<close>: the keys of every dictionary in
  alphabetical order, \<open>'', ''\<close> between items and \<open>'': ''\<close> after a key.
\<close>

definition json_dumps_step :: "trace_step \<Rightarrow> string" where
  "json_dumps_step st =
     ''{'' @ join '', ''
       [json_quote ''depth'' @ '': '' @ str_int (int (depth st)),
        json_quote ''input'' @ '': '' @ str_int (input st),
        json_quote ''operation'' @ '': '' @ json_quote (operation_name (operation st)),
        json_quote ''output'' @ '': '' @ str_int (output st),
        json_quote ''step'' @ '': '' @ str_int (int (step st))] @ ''}''"

definition json_dumps_trace :: "ProofTrace \<Rightarrow> string" where
  "json_dumps_trace trace =
     ''{'' @ join '', ''
       [json_quote ''inputs'' @ '': '' @ ''{'' @ json_quote ''n'' @ '': '' @ str_int (inputs_n trace) @ ''}'',
        json_quote ''outputs'' @ '': '' @ ''{'' @ json_quote ''result'' @ '': ''
          @ str_int (outputs_result trace) @ ''}'',
        json_quote ''steps'' @ '': '' @ ''['' @ join '', '' (map json_dumps_step (steps trace)) @ '']''] @ ''}''"

definition commit_to_trace :: "pylib \<Rightarrow> ProofTrace \<Rightarrow> string" where
  "commit_to_trace lib trace = sha256_hexdigest lib (json_dumps_trace trace)"

text \<open>The loop of \<^verbatim>\<open>_evaluate_constraints\<close>, with the list \<^verbatim>\<open>evaluations\<close> it appends to.\<close>

fun evaluate_constraints_loop :: "nat \<Rightarrow> trace_step list \<Rightarrow> int list \<Rightarrow> int list" where
  "evaluate_constraints_loop level [] evaluations = evaluations"
| "evaluate_constraints_loop level (st # rest) evaluations =
     (let constraint_value = output st mod (2 ^ level)
      in evaluate_constraints_loop level rest (evaluations @ [constraint_value]))"

definition evaluate_constraints :: "STARKProver \<Rightarrow> ProofTrace \<Rightarrow> int list" where
  "evaluate_constraints P trace =
     evaluate_constraints_loop (STARKProver.security_level P) (steps trace) []"

definition generate_challenge :: "pylib \<Rightarrow> STARKProver \<Rightarrow> string \<Rightarrow> string" where
  "generate_challenge lib P commitment =
     (let challenge_input = commitment @ str_int (int (STARKProver.security_level P))
      in take 16 (sha256_hexdigest lib challenge_input))"

text \<open>The slice \<^verbatim>\<open>xs[::2]\<close>.\<close>

fun slice_step2 :: "'a list \<Rightarrow> 'a list" where
  "slice_step2 [] = []"
| "slice_step2 [x] = [x]"
| "slice_step2 (x # y # zs) = x # slice_step2 zs"

text \<open>
  The loop of \<^verbatim>\<open>_fri_commit\<close>: the first argument counts the iterations that remain of
  \<^verbatim>\<open>range(3)\<close>; \<^verbatim>\<open>layers\<close> and \<^verbatim>\<open>current_evals\<close> are the loop's variables.
\<close>

fun fri_commit_loop :: "pylib \<Rightarrow> nat \<Rightarrow> string \<Rightarrow> string list \<Rightarrow> int list \<Rightarrow> string list" where
  "fri_commit_loop lib 0 challenge layers current_evals = layers"
| "fri_commit_loop lib (Suc k) challenge layers current_evals =
     (let layer_str = json_dumps_strs (map str_int (take 5 current_evals));
          layer_hash = sha256_hexdigest lib (layer_str @ challenge);
          layers' = layers @ [layer_hash];
          current_evals' =
            (if length current_evals > 1 then slice_step2 current_evals else current_evals)
      in fri_commit_loop lib k challenge layers' current_evals')"

definition fri_commit :: "pylib \<Rightarrow> int list \<Rightarrow> string \<Rightarrow> string list" where
  "fri_commit lib evaluations challenge = fri_commit_loop lib 3 challenge [] evaluations"

subsection \<open>Assembling the proof\<close>

text \<open>
  \<^verbatim>\<open>generate_proof\<close>. \<open>now\<close> is what \<^verbatim>\<open>time.time()\<close> returns. The function returns the
  proof and the prover with \<^verbatim>\<open>proof_data\<close> set to it.
\<close>

definition generate_proof ::
  "pylib \<Rightarrow> real \<Rightarrow> STARKProver \<Rightarrow> int \<Rightarrow> ProofTrace \<Rightarrow> proof_dict \<times> STARKProver" where
  "generate_proof lib now P computation_result trace =
     (let trace_commitment = commit_to_trace lib trace;
          constraint_evals = evaluate_constraints P trace;
          challenge = generate_challenge lib P trace_commitment;
          fri_layers = fri_commit lib constraint_evals challenge;
          proof = [''version'' \<mapsto> PStr ''1.0'',
                   ''computation'' \<mapsto> PStr ''fibonacci'',
                   ''result'' \<mapsto> PInt computation_result,
                   ''trace_commitment'' \<mapsto> PStr trace_commitment,
                   ''constraint_evaluations'' \<mapsto> PList (map PInt (take 10 constraint_evals)),
                   ''challenge'' \<mapsto> PStr challenge,
                   ''fri_layers'' \<mapsto> PList (map PStr fri_layers),
                   ''timestamp'' \<mapsto> PFloat (FNum now),
                   ''security_bits'' \<mapsto> PInt (int (STARKProver.security_level P))]
      in (proof, P\<lparr>proof_data := proof\<rparr>))"

section \<open>The verifier (verifier.py)\<close>

subsection \<open>The operations of Python the verifier applies to proof values\<close>

text \<open>\<^verbatim>\<open>proof.get(key, dflt)\<close>, with \<open>dflt\<close> the default for a missing key.\<close>

definition dict_get :: "proof_dict \<Rightarrow> string \<Rightarrow> pyval \<Rightarrow> pyval" where
  "dict_get proof key dflt = (case proof key of Some v \<Rightarrow> v | None \<Rightarrow> dflt)"

text \<open>The truth value of \<open>v\<close>, as \<^verbatim>\<open>not v\<close> reads it.\<close>

definition py_truthy :: "pyval \<Rightarrow> bool" where
  "py_truthy v =
     (case v of
        PNone \<Rightarrow> False
      | PBool b \<Rightarrow> b
      | PInt i \<Rightarrow> i \<noteq> 0
      | PFloat f \<Rightarrow> f \<noteq> FNum 0
      | PStr s \<Rightarrow> s \<noteq> []
      | PList xs \<Rightarrow> xs \<noteq> []
      | PDict kvs \<Rightarrow> kvs \<noteq> [])"

text \<open>\<^verbatim>\<open>len(v)\<close>: strings, lists and dictionaries have a length.\<close>

definition py_len :: "pyval \<Rightarrow> pyexn + nat" where
  "py_len v =
     (case v of
        PStr s \<Rightarrow> Inr (length s)
      | PList xs \<Rightarrow> Inr (length xs)
      | PDict kvs \<Rightarrow> Inr (length kvs)
      | _ \<Rightarrow> Inl (TypeError ''len'' v))"

text \<open>
  The elements a \<^verbatim>\<open>for\<close> loop or a generator draws from \<open>v\<close>: the one-character
  strings of a string, the elements of a list, the keys of a dictionary.
\<close>

definition py_iter :: "pyval \<Rightarrow> pyexn + pyval list" where
  "py_iter v =
     (case v of
        PStr s \<Rightarrow> Inr (map (\<lambda>c. PStr [c]) s)
      | PList xs \<Rightarrow> Inr xs
      | PDict kvs \<Rightarrow> Inr (map (\<lambda>kv. PStr (fst kv)) kvs)
      | _ \<Rightarrow> Inl (TypeError ''iter'' v))"

definition isinstance_list :: "pyval \<Rightarrow> bool" where
  "isinstance_list v = (case v of PList xs \<Rightarrow> True | _ \<Rightarrow> False)"

text \<open>\<open>s\<close> begins with \<open>t\<close>; \<open>t\<close> occurs in \<open>s\<close> (\<^verbatim>\<open>t in s\<close> on strings).\<close>

fun starts_with :: "string \<Rightarrow> string \<Rightarrow> bool" where
  "starts_with s [] = True"
| "starts_with [] (y # ys) = False"
| "starts_with (x # xs) (y # ys) = (x = y \<and> starts_with xs ys)"

fun contains_str :: "string \<Rightarrow> string \<Rightarrow> bool" where
  "contains_str [] t = (t = [])"
| "contains_str (x # xs) t = (starts_with (x # xs) t \<or> contains_str xs t)"

definition hex_chars :: string where
  "hex_chars = ''0123456789abcdef''"

text \<open>\<^verbatim>\<open>c in '0123456789abcdef'\<close>: the left operand must be a string.\<close>

definition in_hex_chars :: "pyval \<Rightarrow> pyexn + bool" where
  "in_hex_chars c =
     (case c of
        PStr t \<Rightarrow> Inr (contains_str hex_chars t)
      | _ \<Rightarrow> Inl (TypeError ''in'' c))"

text \<open>
  \<^verbatim>\<open>all(c in '0123456789abcdef' for c in ...)\<close> over the elements drawn: it stops at the
  first element that is not in the string, and an element that is no string raises.
\<close>

fun all_in_hex_chars :: "pyval list \<Rightarrow> pyexn + bool" where
  "all_in_hex_chars [] = Inr True"
| "all_in_hex_chars (c # cs) =
     (case in_hex_chars c of
        Inl e \<Rightarrow> Inl e
      | Inr ok \<Rightarrow> (if ok then all_in_hex_chars cs else Inr False))"

text \<open>\<^verbatim>\<open>v >= k\<close> for an integer \<open>k\<close>: integers, booleans and floats compare with it.\<close>

definition py_ge_int :: "pyval \<Rightarrow> int \<Rightarrow> pyexn + bool" where
  "py_ge_int v k =
     (case v of
        PInt i \<Rightarrow> Inr (i \<ge> k)
      | PBool b \<Rightarrow> Inr ((if b then 1 else 0) \<ge> k)
      | PFloat f \<Rightarrow>
          Inr (case f of FNum r \<Rightarrow> r \<ge> of_int k | FInf \<Rightarrow> True | FNegInf \<Rightarrow> False | FNan \<Rightarrow> False)
      | _ \<Rightarrow> Inl (TypeError ''>='' v))"

text \<open>\<^verbatim>\<open>v + s\<close> for a string \<open>s\<close>: only a string can be extended by a string.\<close>

definition py_add_str :: "pyval \<Rightarrow> string \<Rightarrow> pyexn + string" where
  "py_add_str v s =
     (case v of
        PStr t \<Rightarrow> Inr (t @ s)
      | _ \<Rightarrow> Inl (TypeError ''+'' v))"

subsection \<open>The checks\<close>

record VerificationResult =
  valid :: bool
  message :: string
  checks_passed :: "string list"
  checks_failed :: "string list"

record STARKVerifier =
  security_level :: nat
  verification_log :: "VerificationResult list"

definition required_fields :: "string list" where
  "required_fields =
     [''version'', ''computation'', ''result'', ''trace_commitment'',
      ''constraint_evaluations'', ''challenge'', ''fri_layers'', ''security_bits'']"

text \<open>The loop \<^verbatim>\<open>for field in required_fields\<close> of \<^verbatim>\<open>_check_proof_structure\<close>.\<close>

fun fields_present :: "proof_dict \<Rightarrow> string list \<Rightarrow> bool" where
  "fields_present proof [] = True"
| "fields_present proof (field # rest) =
     (if proof field = None then False else fields_present proof rest)"

text \<open>
  \<^verbatim>\<open>_check_proof_structure\<close>. After the loop both keys read by the type checks are
  present (the last branch cannot be reached).
\<close>

definition check_proof_structure :: "proof_dict \<Rightarrow> bool" where
  "check_proof_structure proof =
     (if \<not> fields_present proof required_fields then False
      else
        (case (proof ''constraint_evaluations'', proof ''fri_layers'') of
           (Some evals, Some layers) \<Rightarrow>
             (if \<not> isinstance_list evals then False
              else if \<not> isinstance_list layers then False
              else True)
         | _ \<Rightarrow> False))"

definition verify_trace_commitment :: "proof_dict \<Rightarrow> pyexn + bool" where
  "verify_trace_commitment proof =
     (let commitment = dict_get proof ''trace_commitment'' (PStr [])
      in case py_len commitment of
           Inl e \<Rightarrow> Inl e
         | Inr n \<Rightarrow>
             (if n = 64 then
                (case py_iter commitment of
                   Inl e \<Rightarrow> Inl e
                 | Inr cs \<Rightarrow> all_in_hex_chars cs)
              else Inr False))"

text \<open>
  The first loop of \<^verbatim>\<open>_verify_constraints\<close>: every element is an \<^verbatim>\<open>int\<close> (a boolean is
  one, and is not below zero) that is not negative.
\<close>

fun int_loop :: "pyval list \<Rightarrow> bool" where
  "int_loop [] = True"
| "int_loop (PInt i # rest) = (if i < 0 then False else int_loop rest)"
| "int_loop (PBool b # rest) = int_loop rest"
| "int_loop (v # rest) = False"

text \<open>The second loop: no element reaches the bound \<^verbatim>\<open>2 ** self.security_level\<close>.\<close>

fun range_loop :: "int \<Rightarrow> pyval list \<Rightarrow> pyexn + bool" where
  "range_loop bound [] = Inr True"
| "range_loop bound (v # rest) =
     (case py_ge_int v bound of
        Inl e \<Rightarrow> Inl e
      | Inr reached \<Rightarrow> (if reached then Inr False else range_loop bound rest))"

definition verify_constraints :: "STARKVerifier \<Rightarrow> proof_dict \<Rightarrow> pyexn + bool" where
  "verify_constraints V proof =
     (let evaluations = dict_get proof ''constraint_evaluations'' (PList [])
      in if \<not> py_truthy evaluations then Inr False
         else
           (case py_iter evaluations of
              Inl e \<Rightarrow> Inl e
            | Inr vals \<Rightarrow>
                (if \<not> int_loop vals then Inr False
                 else range_loop (2 ^ security_level V) vals)))"

text \<open>The loop of \<^verbatim>\<open>_verify_fri_layers\<close>: every layer is a string of 64 characters of \<open>hex_chars\<close>.\<close>

fun layer_loop :: "pyval list \<Rightarrow> bool" where
  "layer_loop [] = True"
| "layer_loop (PStr s # rest) =
     (if length s \<noteq> 64 \<or> \<not> list_all (\<lambda>c. c \<in> set hex_chars) s then False
      else layer_loop rest)"
| "layer_loop (v # rest) = False"

definition verify_fri_layers :: "proof_dict \<Rightarrow> pyexn + bool" where
  "verify_fri_layers proof =
     (let fri_layers = dict_get proof ''fri_layers'' (PList [])
      in if \<not> py_truthy fri_layers then Inr False
         else
           (case py_len fri_layers of
              Inl e \<Rightarrow> Inl e
            | Inr n \<Rightarrow>
                (if n < 1 then Inr False
                 else
                   (case py_iter fri_layers of
                      Inl e \<Rightarrow> Inl e
                    | Inr layers \<Rightarrow> Inr (layer_loop layers)))))"

definition verify_challenge :: "pylib \<Rightarrow> proof_dict \<Rightarrow> pyexn + bool" where
  "verify_challenge lib proof =
     (let challenge = dict_get proof ''challenge'' (PStr []);
          trace_commitment = dict_get proof ''trace_commitment'' (PStr []);
          security_bits = dict_get proof ''security_bits'' (PInt 0)
      in case py_add_str trace_commitment (py_str lib security_bits) of
           Inl e \<Rightarrow> Inl e
         | Inr challenge_input \<Rightarrow>
             (let expected_challenge = take 16 (sha256_hexdigest lib challenge_input)
              in Inr (challenge = PStr expected_challenge)))"

subsection \<open>verify\<close>

text \<open>The two lists \<^verbatim>\<open>checks_passed\<close> and \<^verbatim>\<open>checks_failed\<close> that \<^verbatim>\<open>verify\<close> appends to.\<close>

type_synonym check_log = "string list \<times> string list"

text \<open>
  One \<^verbatim>\<open>if ...: checks_passed.append(...) else: checks_failed.append(...)\<close> of
  \<^verbatim>\<open>verify\<close>.
\<close>

definition record_check :: "bool \<Rightarrow> string \<Rightarrow> string \<Rightarrow> check_log \<Rightarrow> check_log" where
  "record_check ok pass_text fail_text lg =
     (if ok then (fst lg @ [pass_text], snd lg) else (fst lg, snd lg @ [fail_text]))"

text \<open>
  Checks 2 to 6 of \<^verbatim>\<open>verify\<close>, in the order of the code. An exception leaves the
  \<^verbatim>\<open>try\<close> block with the two lists as they are at that moment.
\<close>

definition verify_checks ::
  "pylib \<Rightarrow> STARKVerifier \<Rightarrow> proof_dict \<Rightarrow> check_log \<Rightarrow> (pyexn \<times> check_log) + check_log" where
  "verify_checks lib V proof log1 =
     (case verify_trace_commitment proof of
        Inl e \<Rightarrow> Inl (e, log1)
      | Inr ok2 \<Rightarrow>
     (let log2 = record_check ok2 ''Trace commitment verified''
                   ''Trace commitment verification failed'' log1
      in case verify_constraints V proof of
        Inl e \<Rightarrow> Inl (e, log2)
      | Inr ok3 \<Rightarrow>
     (let log3 = record_check ok3 ''Constraint evaluations verified''
                   ''Constraint evaluation verification failed'' log2
      in case verify_fri_layers proof of
        Inl e \<Rightarrow> Inl (e, log3)
      | Inr ok4 \<Rightarrow>
     (let log4 = record_check ok4 ''FRI proof layers verified''
                   ''FRI proof layer verification failed'' log3
      in case verify_challenge lib proof of
        Inl e \<Rightarrow> Inl (e, log4)
      | Inr ok5 \<Rightarrow>
     (let log5 = record_check ok5 ''Challenge generation verified''
                   ''Challenge verification failed'' log4
      in case py_ge_int (dict_get proof ''security_bits'' (PInt 0)) (int (security_level V)) of
        Inl e \<Rightarrow> Inl (e, log5)
      | Inr ok6 \<Rightarrow>
          (case proof ''security_bits'' of
             None \<Rightarrow> Inl (KeyError ''security_bits'', log5)
           | Some bits \<Rightarrow>
               Inr (record_check ok6
                     (''Security level adequate ('' @ py_str lib bits @ '' bits)'')
                     (''Insufficient security level ('' @ py_str lib bits @ '' bits)'')
                     log5)))))))"

text \<open>
  \<^verbatim>\<open>verify\<close> returns the result and the verifier, whose log has the result appended on
  the path that reaches the end of the \<^verbatim>\<open>try\<close> block.
\<close>

definition verify :: "pylib \<Rightarrow> STARKVerifier \<Rightarrow> proof_dict \<Rightarrow> VerificationResult \<times> STARKVerifier" where
  "verify lib V proof =
     (if check_proof_structure proof then
        (case verify_checks lib V proof ([''Proof structure is valid''], []) of
           Inr lg \<Rightarrow>
             (let is_valid = (length (snd lg) = 0);
                  msg = (if is_valid then ''Proof is VALID'' else ''Proof is INVALID'');
                  verification_result =
                    \<lparr>valid = is_valid, message = msg,
                     checks_passed = fst lg, checks_failed = snd lg\<rparr>
              in (verification_result,
                  V\<lparr>verification_log := verification_log V @ [verification_result]\<rparr>))
         | Inl (e, lg) \<Rightarrow>
             (\<lparr>valid = False, message = ''Verification error: '' @ str_exn lib e,
               checks_passed = fst lg,
               checks_failed = [''Exception: '' @ str_exn lib e] @ snd lg\<rparr>, V))
      else
        (\<lparr>valid = False, message = ''Proof structure validation failed'',
          checks_passed = [], checks_failed = [''Invalid proof structure'']\<rparr>, V))"

section \<open>Notions used to state the properties\<close>

text \<open>What the specification lists of a trace entry: operation, input, output and depth.\<close>

definition step_summary :: "trace_step \<Rightarrow> operation \<times> int \<times> int \<times> nat" where
  "step_summary st = (operation st, input st, output st, depth st)"

text \<open>
  The folding step in the words of the specification. A layer's digest is taken over the
  first five entries of the current list (all of them if there are fewer), written as
  decimal strings in a JSON list, followed by the challenge.
\<close>

definition spec_first_five :: "int list \<Rightarrow> int list" where
  "spec_first_five xs = map (\<lambda>i. xs ! i) [0..<min 5 (length xs)]"

definition spec_layer_digest :: "pylib \<Rightarrow> string \<Rightarrow> int list \<Rightarrow> string" where
  "spec_layer_digest lib challenge xs =
     sha256_hexdigest lib (json_dumps_strs (map str_int (spec_first_five xs)) @ challenge)"

text \<open>
  The next list keeps every second element of the whole current list, from index 0:
  the elements at the indices 0, 2, 4, ...; a list of exactly one element is kept as it is.
\<close>

definition spec_fold :: "int list \<Rightarrow> int list" where
  "spec_fold xs =
     (if length xs = 1 then xs else map (\<lambda>i. xs ! (2 * i)) [0..<(length xs + 1) div 2])"

text \<open>An integer that is not negative and lies below \<open>2 ^ level\<close>.\<close>

definition within_level :: "nat \<Rightarrow> int \<Rightarrow> bool" where
  "within_level level x = (0 \<le> x \<and> x < 2 ^ level)"

text \<open>A string of 64 characters, each one of \<open>hex_chars\<close>: the shape of a SHA-256 hexdigest.\<close>

definition hex_string :: "string \<Rightarrow> bool" where
  "hex_string s = (length s = 64 \<and> list_all (\<lambda>c. c \<in> set hex_chars) s)"

text \<open>What is assumed of \<^verbatim>\<open>hashlib.sha256(...).hexdigest()\<close> where a property needs it.\<close>

definition sha256_shape :: "pylib \<Rightarrow> bool" where
  "sha256_shape lib = (\<forall>s. hex_string (sha256_hexdigest lib s))"

text \<open>
  A library to run the model on concrete inputs: its digest has the shape of a SHA-256
  hexdigest (it is not SHA-256).
\<close>

definition demo_lib :: pylib where
  "demo_lib =
     \<lparr>sha256_hexdigest = (\<lambda>s. replicate 64 (hex_chars ! (length s mod 16))),
      repr_of = (\<lambda>v. ''<value>''),
      type_error_str = (\<lambda>opn v. ''unsupported operand type for '' @ opn)\<rparr>"

section \<open>The trace builder\<close>

lemma fib_with_trace_extends:
  "fib_with_trace room num d s = Inr (v, s') \<Longrightarrow> \<exists>new. snd s' = snd s @ new \<and> new \<noteq> []"
proof (induction room num d s arbitrary: v s' rule: fib_with_trace.induct)
  case (1 room num d memo trace_steps)
  from "1.prems" have rd: "\<not> room \<le> d"
    by (auto simp: fib_with_trace.simps [of room num d] split: if_splits)
  show ?case
  proof (cases "memo num")
    case (Some w)
    with "1.prems" rd show ?thesis by (auto simp: fib_with_trace.simps [of room num d])
  next
    case None
    show ?thesis
    proof (cases "num = 0 \<or> num = 1")
      case True
      with None "1.prems" rd show ?thesis
        by (auto simp: fib_with_trace.simps [of room num d])
    next
      case False
      from "1.prems" rd None False obtain a m1 t1 where
        r1: "fib_with_trace room (num - 1) (d + 1) (memo, trace_steps) = Inr (a, (m1, t1))"
        by (auto simp: fib_with_trace.simps [of room num d] split: sum.splits)
      from "1.prems" rd None False r1 obtain b m2 t2 where
        r2: "fib_with_trace room (num - 2) (d + 1) (m1, t1) = Inr (b, (m2, t2))"
        by (auto simp: fib_with_trace.simps [of room num d] split: sum.splits)
      from "1.IH"(1) [OF rd None _ _ r1] False obtain new1 where n1: "t1 = trace_steps @ new1"
        by auto
      from "1.IH"(2) [OF rd None _ _ r1 refl r2] False obtain new2 where n2: "t2 = t1 @ new2"
        by auto
      from "1.prems" rd None False r1 r2 n1 n2 show ?thesis
        by (auto simp: fib_with_trace.simps [of room num d])
    qed
  qed
qed

lemma compute_fibonacci_steps_nonempty:
  assumes "compute_fibonacci room n = Inr (r, tr)"
  shows "steps tr \<noteq> []"
proof -
  from assms obtain res memo ts where
    f: "fib_with_trace room (nat n) 0 (Map.empty, []) = Inr (res, (memo, ts))"
    and tr: "steps tr = ts"
    by (auto simp: compute_fibonacci_def split: if_splits sum.splits)
  from fib_with_trace_extends [OF f] have "ts \<noteq> []" by simp
  with tr show ?thesis by simp
qed

lemma fib_with_trace_enough_room:
  "d + max num 1 \<le> room \<Longrightarrow> \<exists>x. fib_with_trace room num d s = Inr x"
proof (induction room num d s rule: fib_with_trace.induct)
  case (1 room num d memo trace_steps)
  from "1.prems" have rd: "\<not> room \<le> d" by simp
  show ?case
  proof (cases "memo num")
    case (Some w)
    with rd show ?thesis by (simp add: fib_with_trace.simps [of room num d])
  next
    case None
    show ?thesis
    proof (cases "num = 0 \<or> num = 1")
      case True
      with None rd show ?thesis by (auto simp: fib_with_trace.simps [of room num d])
    next
      case False
      with "1.prems" have e1: "d + 1 + max (num - 1) 1 \<le> room" and e2: "d + 1 + max (num - 2) 1 \<le> room"
        by auto
      from "1.IH"(1) [OF rd None _ _ e1] False obtain a s1 where
        r1: "fib_with_trace room (num - 1) (d + 1) (memo, trace_steps) = Inr (a, s1)"
        by auto
      from "1.IH"(2) [OF rd None _ _ r1 refl e2] False obtain b s2 where
        r2: "fib_with_trace room (num - 2) (d + 1) s1 = Inr (b, s2)"
        by auto
      from rd None False r1 r2 show ?thesis
        by (auto simp: fib_with_trace.simps [of room num d] split: prod.splits)
    qed
  qed
qed

lemma fib_with_trace_too_deep:
  "room < d + max num 1 \<Longrightarrow> fib_with_trace room num d (Map.empty, ts) = Inl RecursionError"
proof (induction num arbitrary: d)
  case 0
  then show ?case by (simp add: fib_with_trace.simps [of room 0 d])
next
  case (Suc num)
  show ?case
  proof (cases "room \<le> d")
    case True
    then show ?thesis by (simp add: fib_with_trace.simps [of room "Suc num" d])
  next
    case False
    with Suc.prems have pos: "num \<noteq> 0" by auto
    from Suc.prems pos have "room < (d + 1) + max num 1" by auto
    from Suc.IH [OF this] False pos show ?thesis
      by (simp add: fib_with_trace.simps [of room "Suc num" d])
  qed
qed

text \<open>
  C3, as the code has it. Where the interpreter leaves room for the five nested calls
  that \<open>n = 5\<close> needs (the default recursion limit of 1000 does), \<^verbatim>\<open>compute_fibonacci(5)\<close>
  returns the result 5 and a trace of exactly nine entries whose \<open>step\<close> is the
  position, from 0. Both recursive calls of \<^verbatim>\<open>fib_with_trace\<close> are made at \<open>depth + 1\<close>,
  so the depths of the nine entries are 4, 4, 3, 3, 2, 2, 1, 1, 0. With less room the
  call raises \<open>RecursionError\<close>.
\<close>

theorem compute_fibonacci_5_trace:
  "compute_fibonacci room 5 =
     (if 5 \<le> room then
        Inr (5, \<lparr>steps =
          [\<lparr>step = 0, operation = fib_compute, input = 1, output = 1, depth = 4\<rparr>,
           \<lparr>step = 1, operation = fib_compute, input = 0, output = 0, depth = 4\<rparr>,
           \<lparr>step = 2, operation = fib_compute, input = 2, output = 1, depth = 3\<rparr>,
           \<lparr>step = 3, operation = memo_lookup, input = 1, output = 1, depth = 3\<rparr>,
           \<lparr>step = 4, operation = fib_compute, input = 3, output = 2, depth = 2\<rparr>,
           \<lparr>step = 5, operation = memo_lookup, input = 2, output = 1, depth = 2\<rparr>,
           \<lparr>step = 6, operation = fib_compute, input = 4, output = 3, depth = 1\<rparr>,
           \<lparr>step = 7, operation = memo_lookup, input = 3, output = 2, depth = 1\<rparr>,
           \<lparr>step = 8, operation = fib_compute, input = 5, output = 5, depth = 0\<rparr>],
          inputs_n = 5, outputs_result = 5\<rparr>)
      else Inl RecursionError)"
proof (cases "5 \<le> room")
  case True
  then show ?thesis
    by (simp add: compute_fibonacci_def fib_with_trace.simps)
next
  case False
  then have "room < 0 + max (nat 5) 1" by simp
  from fib_with_trace_too_deep [OF this, of "[]"] False show ?thesis
    by (simp add: compute_fibonacci_def)
qed

text \<open>
  The sequence of C3 as the specification lists it, with the depths 4, 5, 3, 4, 2, 3, 1,
  2, 0, is not the trace of \<^verbatim>\<open>compute_fibonacci(5)\<close> (here with the room that the default
  recursion limit leaves at most).
\<close>

theorem compute_fibonacci_5_listed_depths_counterexample:
  "map step_summary (steps (snd (projr (compute_fibonacci 999 5)))) \<noteq>
     [(fib_compute, 1, 1, 4), (fib_compute, 0, 0, 5), (fib_compute, 2, 1, 3),
      (memo_lookup, 1, 1, 4), (fib_compute, 3, 2, 2), (memo_lookup, 2, 1, 3),
      (fib_compute, 4, 3, 1), (memo_lookup, 3, 2, 2), (fib_compute, 5, 5, 0)]"
  by (simp add: compute_fibonacci_def fib_with_trace.simps step_summary_def)

text \<open>
  C9, as the code has it. For every \<open>n < 0\<close> \<^verbatim>\<open>compute_fibonacci\<close> raises the
  \<open>ValueError\<close> of its first statement, before \<^verbatim>\<open>trace_steps\<close> exists. For every
  \<open>n \<ge> 0\<close> it does not raise that error; it returns a result and a trace (of the input
  \<open>n\<close> and that result) when the interpreter leaves room for the \<open>max n 1\<close> nested
  calls of the recursion, and raises \<open>RecursionError\<close> when it does not.
\<close>

theorem compute_fibonacci_guard:
  "(n < 0 \<longrightarrow> compute_fibonacci room n = Inl (ValueError ''n must be non-negative'')) \<and>
   (0 \<le> n \<longrightarrow> compute_fibonacci room n \<noteq> Inl (ValueError ''n must be non-negative'')) \<and>
   (0 \<le> n \<and> max (nat n) 1 \<le> room \<longrightarrow>
      (\<exists>result trace. compute_fibonacci room n = Inr (result, trace) \<and>
         inputs_n trace = n \<and> outputs_result trace = result)) \<and>
   (0 \<le> n \<and> room < max (nat n) 1 \<longrightarrow> compute_fibonacci room n = Inl RecursionError)"
proof (intro conjI impI)
  assume "n < 0"
  then show "compute_fibonacci room n = Inl (ValueError ''n must be non-negative'')"
    by (simp add: compute_fibonacci_def)
next
  assume n: "0 \<le> n"
  show "compute_fibonacci room n \<noteq> Inl (ValueError ''n must be non-negative'')"
  proof (cases "max (nat n) 1 \<le> room")
    case True
    then have "0 + max (nat n) 1 \<le> room" by simp
    from fib_with_trace_enough_room [OF this, of "(Map.empty, [])"] n show ?thesis
      by (auto simp: compute_fibonacci_def split: prod.splits)
  next
    case False
    then have "room < 0 + max (nat n) 1" by arith
    from fib_with_trace_too_deep [OF this, of "[]"] n show ?thesis
      by (simp add: compute_fibonacci_def)
  qed
next
  assume "0 \<le> n \<and> max (nat n) 1 \<le> room"
  then have n: "0 \<le> n" and "0 + max (nat n) 1 \<le> room" by simp_all
  from fib_with_trace_enough_room [OF this(2), of "(Map.empty, [])"] n
  show "\<exists>result trace. compute_fibonacci room n = Inr (result, trace) \<and>
         inputs_n trace = n \<and> outputs_result trace = result"
    by (auto simp: compute_fibonacci_def split: prod.splits)
next
  assume "0 \<le> n \<and> room < max (nat n) 1"
  then have n: "0 \<le> n" and "room < 0 + max (nat n) 1" by simp_all
  from fib_with_trace_too_deep [OF this(2), of "[]"] n
  show "compute_fibonacci room n = Inl RecursionError"
    by (simp add: compute_fibonacci_def)
qed

theorem compute_fibonacci_guard_witness:
  "compute_fibonacci 999 (- 3) = Inl (ValueError ''n must be non-negative'') \<and>
   compute_fibonacci 999 4 \<noteq> Inl (ValueError ''n must be non-negative'') \<and>
   (\<exists>result trace. compute_fibonacci 999 4 = Inr (result, trace) \<and>
      inputs_n trace = 4 \<and> outputs_result trace = result) \<and>
   compute_fibonacci 999 1000 = Inl RecursionError"
  using compute_fibonacci_guard [of "- 3" 999] compute_fibonacci_guard [of 4 999]
    compute_fibonacci_guard [of 1000 999] by simp

text \<open>
  C9 as it is stated fails at \<open>n = 1000\<close>: under the default recursion limit at most 999
  nested calls of \<^verbatim>\<open>fib_with_trace\<close> fit, \<open>n = 1000\<close> needs 1000, and the call does not
  return a result.
\<close>

theorem compute_fibonacci_recursion_counterexample:
  "(0::int) \<le> 1000 \<and> compute_fibonacci 999 1000 = Inl RecursionError"
proof -
  have "(999::nat) < 0 + max (nat 1000) 1" by simp
  from fib_with_trace_too_deep [OF this, of "[]"] show ?thesis
    by (simp add: compute_fibonacci_def)
qed

section \<open>The layered folding committer\<close>

lemma length_fri_commit_loop:
  "length (fri_commit_loop lib k challenge layers current_evals) = length layers + k"
  by (induction k arbitrary: layers current_evals) (simp_all add: Let_def)

text \<open>
  C5. \<^verbatim>\<open>_fri_commit\<close> is a total function of the evaluation list and the challenge (no
  statement of it can raise, whatever the length of the list), and the list of layers it
  returns has exactly three entries.
\<close>

theorem fri_commit_three_layers:
  "length (fri_commit lib evaluations challenge) = 3"
  by (simp add: fri_commit_def length_fri_commit_loop)

lemma length_slice_step2: "length (slice_step2 xs) = (length xs + 1) div 2"
  by (induction xs rule: slice_step2.induct) simp_all

lemma nth_slice_step2: "i < length (slice_step2 xs) \<Longrightarrow> slice_step2 xs ! i = xs ! (2 * i)"
proof (induction xs arbitrary: i rule: slice_step2.induct)
  case 1
  then show ?case by simp
next
  case (2 x)
  then show ?case by simp
next
  case (3 x y zs)
  then show ?case by (cases i) simp_all
qed

lemma slice_step2_nth_map:
  "slice_step2 xs = map (\<lambda>i. xs ! (2 * i)) [0..<(length xs + 1) div 2]"
  by (rule nth_equalityI) (simp_all add: length_slice_step2 nth_slice_step2)

lemma fold_step_spec:
  "(if length xs > 1 then slice_step2 xs else xs) = spec_fold (xs :: int list)"
proof (cases xs)
  case Nil
  then show ?thesis by (simp add: spec_fold_def)
next
  case (Cons x ys)
  then show ?thesis
    by (cases ys) (simp_all add: spec_fold_def slice_step2_nth_map del: upt_Suc)
qed

lemma take_5_spec: "take 5 xs = spec_first_five xs"
proof -
  have "take 5 xs = take 5 (map (\<lambda>i. xs ! i) [0..<length xs])"
    by (simp add: map_nth)
  also have "\<dots> = map (\<lambda>i. xs ! i) (take 5 [0..<length xs])"
    by (simp add: take_map)
  also have "take 5 [0..<length xs] = [0..<min 5 (length xs)]"
    by (cases "5 \<le> length xs") (simp_all add: min_def)
  finally show ?thesis by (simp add: spec_first_five_def)
qed

text \<open>
  C4. For every evaluation list and challenge, the three layers of \<^verbatim>\<open>_fri_commit\<close>
  are the digests, as the specification describes a layer's digest, of the list, of the
  list folded once and of the list folded twice, where folding is the specification's
  (every second element of the whole list from index 0, a one-element list unchanged).
\<close>

theorem fri_commit_layers:
  "fri_commit lib evaluations challenge =
     [spec_layer_digest lib challenge evaluations,
      spec_layer_digest lib challenge (spec_fold evaluations),
      spec_layer_digest lib challenge (spec_fold (spec_fold evaluations))]"
  by (simp add: fri_commit_def numeral_3_eq_3 Let_def spec_layer_digest_def
      take_5_spec fold_step_spec del: One_nat_def)

section \<open>Constraint evaluations\<close>

lemma evaluate_constraints_loop_map:
  "evaluate_constraints_loop level sts evaluations =
     evaluations @ map (\<lambda>st. output st mod 2 ^ level) sts"
  by (induction sts arbitrary: evaluations) (simp_all add: Let_def)

text \<open>
  C8. For every trace, the list that \<^verbatim>\<open>_evaluate_constraints\<close> computes is as long as
  the trace, its \<open>k\<close>-th entry is the output of the \<open>k\<close>-th trace entry modulo
  \<open>2 ^ security_level\<close>, and the \<^verbatim>\<open>constraint_evaluations\<close> of the proof that
  \<^verbatim>\<open>generate_proof\<close> assembles is the list of its first ten entries (all, if fewer).
\<close>

theorem constraint_evaluations_prefix:
  "length (evaluate_constraints P trace) = length (steps trace) \<and>
   (\<forall>k < length (steps trace).
      evaluate_constraints P trace ! k =
        output (steps trace ! k) mod 2 ^ STARKProver.security_level P) \<and>
   fst (generate_proof lib now P computation_result trace) ''constraint_evaluations'' =
     Some (PList (map PInt (take 10 (evaluate_constraints P trace))))"
  by (simp add: evaluate_constraints_def evaluate_constraints_loop_map generate_proof_def Let_def)

theorem constraint_evaluations_prefix_witness:
  "length (evaluate_constraints \<lparr>STARKProver.security_level = 3, proof_data = Map.empty\<rparr>
             (snd (projr (compute_fibonacci 999 7)))) = 13 \<and>
   evaluate_constraints \<lparr>STARKProver.security_level = 3, proof_data = Map.empty\<rparr>
             (snd (projr (compute_fibonacci 999 7))) ! 12 = 5 \<and>
   length (case fst (generate_proof demo_lib 0
             \<lparr>STARKProver.security_level = 3, proof_data = Map.empty\<rparr> 13
             (snd (projr (compute_fibonacci 999 7)))) ''constraint_evaluations'' of
        Some (PList vs) \<Rightarrow> vs | _ \<Rightarrow> []) = 10"
  using constraint_evaluations_prefix
    [of "\<lparr>STARKProver.security_level = 3, proof_data = Map.empty\<rparr>"
      "snd (projr (compute_fibonacci 999 7))" demo_lib 0 13]
  by (simp add: compute_fibonacci_def fib_with_trace.simps)

section \<open>The checks of the verifier\<close>

lemma contains_str_single: "contains_str s [c] = (c \<in> set s)"
  by (induction s) auto

lemma all_in_hex_chars_str:
  "all_in_hex_chars (map (\<lambda>c. PStr [c]) s) = Inr (list_all (\<lambda>c. c \<in> set hex_chars) s)"
  by (induction s) (simp_all add: in_hex_chars_def contains_str_single)

lemma verify_trace_commitment_str:
  "proof ''trace_commitment'' = Some (PStr s) \<Longrightarrow>
     verify_trace_commitment proof = Inr (hex_string s)"
  by (simp add: verify_trace_commitment_def dict_get_def py_len_def py_iter_def
      all_in_hex_chars_str hex_string_def)

lemma int_loop_ints: "int_loop (map PInt xs) = list_all (\<lambda>x. 0 \<le> x) xs"
  by (induction xs) auto

lemma range_loop_ints: "range_loop b (map PInt xs) = Inr (list_all (\<lambda>x. x < b) xs)"
  by (induction xs) (auto simp: py_ge_int_def)

lemma verify_constraints_ints:
  "proof ''constraint_evaluations'' = Some (PList (map PInt xs)) \<Longrightarrow>
     verify_constraints V proof = Inr (xs \<noteq> [] \<and> list_all (within_level (security_level V)) xs)"
  by (auto simp: verify_constraints_def dict_get_def py_truthy_def py_iter_def
      int_loop_ints range_loop_ints within_level_def list_all_iff)

lemma layer_loop_strs: "layer_loop (map PStr ls) = list_all hex_string ls"
  by (induction ls) (auto simp: hex_string_def)

lemma verify_fri_layers_strs:
  "proof ''fri_layers'' = Some (PList (map PStr ls)) \<Longrightarrow>
     verify_fri_layers proof = Inr (ls \<noteq> [] \<and> list_all hex_string ls)"
  by (cases ls) (auto simp: verify_fri_layers_def dict_get_def py_truthy_def py_len_def
      py_iter_def layer_loop_strs hex_string_def)

lemma check_proof_structure_iff:
  "check_proof_structure proof \<longleftrightarrow>
     (\<forall>field \<in> set required_fields. proof field \<noteq> None) \<and>
     (\<exists>xs. proof ''constraint_evaluations'' = Some (PList xs)) \<and>
     (\<exists>ys. proof ''fri_layers'' = Some (PList ys))"
proof -
  have fp: "fields_present proof fs \<longleftrightarrow> (\<forall>field \<in> set fs. proof field \<noteq> None)" for fs
    by (induction fs) auto
  show ?thesis
    unfolding check_proof_structure_def fp
    by (auto simp: isinstance_list_def required_fields_def split: option.splits pyval.splits)
qed

text \<open>
  C6. For every proof in which a required field is missing, or whose
  \<^verbatim>\<open>constraint_evaluations\<close> or \<^verbatim>\<open>fri_layers\<close> is not a list, \<^verbatim>\<open>verify\<close> returns at once:
  the result is not valid, its message is "Proof structure validation failed",
  \<^verbatim>\<open>checks_failed\<close> holds the structural failure alone, \<^verbatim>\<open>checks_passed\<close> is empty (no
  later check has recorded anything), and the verifier's log is as it was.
\<close>

theorem verify_structure_failure:
  assumes "(\<exists>field \<in> set required_fields. proof field = None) \<or>
           (\<exists>v. proof ''constraint_evaluations'' = Some v \<and> \<not> isinstance_list v) \<or>
           (\<exists>v. proof ''fri_layers'' = Some v \<and> \<not> isinstance_list v)"
  shows "verify lib V proof =
           (\<lparr>valid = False, message = ''Proof structure validation failed'',
             checks_passed = [], checks_failed = [''Invalid proof structure'']\<rparr>, V)"
proof -
  from assms have "\<not> check_proof_structure proof"
    unfolding check_proof_structure_iff by (auto simp: isinstance_list_def)
  then show ?thesis by (simp add: verify_def)
qed

text \<open>The witness is a proof without \<^verbatim>\<open>fri_layers\<close>.\<close>

theorem verify_structure_failure_witness:
  "verify demo_lib \<lparr>security_level = 128, verification_log = []\<rparr>
     [''version'' \<mapsto> PStr ''1.0'', ''computation'' \<mapsto> PStr ''fibonacci'', ''result'' \<mapsto> PInt 5,
      ''trace_commitment'' \<mapsto> PStr (replicate 64 CHR ''a''),
      ''constraint_evaluations'' \<mapsto> PList [PInt 1], ''challenge'' \<mapsto> PStr ''0123456789abcdef'',
      ''security_bits'' \<mapsto> PInt 128] =
   (\<lparr>valid = False, message = ''Proof structure validation failed'',
     checks_passed = [], checks_failed = [''Invalid proof structure'']\<rparr>,
    \<lparr>security_level = 128, verification_log = []\<rparr>)"
  by (rule verify_structure_failure) (simp add: required_fields_def)

text \<open>
  C10, as the code has it. Whatever the other fields of the proof are, its
  \<^verbatim>\<open>security_bits\<close> among them, check 3 on a list of integers passes exactly when the list
  is not empty and every element is at least 0 and below \<open>2 ^ L\<close>, with \<open>L\<close> the
  security level the verifier is configured with. So a non-empty list of such integers
  passes even if an element reaches \<open>2 ^ security_bits\<close> of the proof, and the empty list
  fails.
\<close>

theorem verify_constraints_verifier_level:
  assumes "proof ''constraint_evaluations'' = Some (PList (map PInt xs))"
  shows "verify_constraints V proof =
           Inr (xs \<noteq> [] \<and> (\<forall>x \<in> set xs. 0 \<le> x \<and> x < 2 ^ security_level V))"
  using assms verify_constraints_ints [of "proof" xs V]
  by (simp add: list_all_iff within_level_def)

text \<open>
  The witness: the verifier's level is 8, the proof's \<^verbatim>\<open>security_bits\<close> is 2, and the
  evaluation 200 is at least \<open>2 ^ 2\<close> and below \<open>2 ^ 8\<close>.
\<close>

theorem verify_constraints_verifier_level_witness:
  "verify_constraints \<lparr>security_level = 8, verification_log = []\<rparr>
     [''constraint_evaluations'' \<mapsto> PList (map PInt [5, 200]), ''security_bits'' \<mapsto> PInt 2]
     = Inr True \<and> (200::int) \<ge> 2 ^ 2"
  using verify_constraints_verifier_level
    [of "[''constraint_evaluations'' \<mapsto> PList (map PInt [5, 200]), ''security_bits'' \<mapsto> PInt 2]"
     "[5, 200]" "\<lparr>security_level = 8, verification_log = []\<rparr>"]
  by simp

text \<open>
  C10 as it is stated fails on the empty list: all of its (no) evaluations are at least 0
  and below \<open>2 ^ 128\<close>, and check 3 of a verifier of level 128 does not pass.
\<close>

theorem verify_constraints_empty_counterexample:
  "list_all (within_level 128) [] \<and>
   verify_constraints \<lparr>security_level = 128, verification_log = []\<rparr>
     [''version'' \<mapsto> PStr ''1.0'', ''computation'' \<mapsto> PStr ''fibonacci'', ''result'' \<mapsto> PInt 5,
      ''trace_commitment'' \<mapsto> PStr (replicate 64 CHR ''a''),
      ''constraint_evaluations'' \<mapsto> PList [], ''challenge'' \<mapsto> PStr ''0123456789abcdef'',
      ''fri_layers'' \<mapsto> PList [PStr (replicate 64 CHR ''b'')],
      ''security_bits'' \<mapsto> PInt 128] = Inr False"
  by (simp add: verify_constraints_def dict_get_def py_truthy_def)

section \<open>The run of verify\<close>

lemma record_check_cases:
  "record_check ok p f lg = (fst lg @ (if ok then [p] else []), snd lg @ (if ok then [] else [f]))"
  by (simp add: record_check_def)

lemma verify_checks_Inr:
  assumes "verify_checks lib V proof log1 = Inr lg"
  shows "\<exists>ok2 ok3 ok4 ok5 ok6 bits.
      verify_trace_commitment proof = Inr ok2 \<and>
      verify_constraints V proof = Inr ok3 \<and>
      verify_fri_layers proof = Inr ok4 \<and>
      verify_challenge lib proof = Inr ok5 \<and>
      py_ge_int (dict_get proof ''security_bits'' (PInt 0)) (int (security_level V)) = Inr ok6 \<and>
      proof ''security_bits'' = Some bits \<and>
      lg = (fst log1
              @ (if ok2 then [''Trace commitment verified''] else [])
              @ (if ok3 then [''Constraint evaluations verified''] else [])
              @ (if ok4 then [''FRI proof layers verified''] else [])
              @ (if ok5 then [''Challenge generation verified''] else [])
              @ (if ok6 then [''Security level adequate ('' @ py_str lib bits @ '' bits)''] else []),
            snd log1
              @ (if ok2 then [] else [''Trace commitment verification failed''])
              @ (if ok3 then [] else [''Constraint evaluation verification failed''])
              @ (if ok4 then [] else [''FRI proof layer verification failed''])
              @ (if ok5 then [] else [''Challenge verification failed''])
              @ (if ok6 then [] else [''Insufficient security level ('' @ py_str lib bits @ '' bits)'']))"
proof -
  from assms obtain ok2 where c2: "verify_trace_commitment proof = Inr ok2"
    by (cases "verify_trace_commitment proof") (simp_all add: verify_checks_def)
  from assms c2 obtain ok3 where c3: "verify_constraints V proof = Inr ok3"
    by (cases "verify_constraints V proof") (simp_all add: verify_checks_def)
  from assms c2 c3 obtain ok4 where c4: "verify_fri_layers proof = Inr ok4"
    by (cases "verify_fri_layers proof") (simp_all add: verify_checks_def)
  from assms c2 c3 c4 obtain ok5 where c5: "verify_challenge lib proof = Inr ok5"
    by (cases "verify_challenge lib proof") (simp_all add: verify_checks_def)
  from assms c2 c3 c4 c5 obtain ok6 where
    c6: "py_ge_int (dict_get proof ''security_bits'' (PInt 0)) (int (security_level V)) = Inr ok6"
    by (cases "py_ge_int (dict_get proof ''security_bits'' (PInt 0)) (int (security_level V))")
       (simp_all add: verify_checks_def)
  from assms c2 c3 c4 c5 c6 obtain bits where sb: "proof ''security_bits'' = Some bits"
    by (cases "proof ''security_bits''") (simp_all add: verify_checks_def)
  from assms c2 c3 c4 c5 c6 sb have
    "lg = record_check ok6 (''Security level adequate ('' @ py_str lib bits @ '' bits)'')
            (''Insufficient security level ('' @ py_str lib bits @ '' bits)'')
           (record_check ok5 ''Challenge generation verified'' ''Challenge verification failed''
           (record_check ok4 ''FRI proof layers verified'' ''FRI proof layer verification failed''
           (record_check ok3 ''Constraint evaluations verified''
              ''Constraint evaluation verification failed''
           (record_check ok2 ''Trace commitment verified''
              ''Trace commitment verification failed'' log1))))"
    by (simp add: verify_checks_def)
  then have "lg = (fst log1
              @ (if ok2 then [''Trace commitment verified''] else [])
              @ (if ok3 then [''Constraint evaluations verified''] else [])
              @ (if ok4 then [''FRI proof layers verified''] else [])
              @ (if ok5 then [''Challenge generation verified''] else [])
              @ (if ok6 then [''Security level adequate ('' @ py_str lib bits @ '' bits)''] else []),
            snd log1
              @ (if ok2 then [] else [''Trace commitment verification failed''])
              @ (if ok3 then [] else [''Constraint evaluation verification failed''])
              @ (if ok4 then [] else [''FRI proof layer verification failed''])
              @ (if ok5 then [] else [''Challenge verification failed''])
              @ (if ok6 then [] else [''Insufficient security level ('' @ py_str lib bits @ '' bits)'']))"
    by (simp only: record_check_cases fst_conv snd_conv append_assoc)
  with c2 c3 c4 c5 c6 sb show ?thesis by blast
qed

text \<open>
  C7. For every proof that passes the structural check and on which checks 2 to 6 raise
  no exception, each of the five checks returns an outcome and \<^verbatim>\<open>verify\<close> records each
  outcome exactly once, in order, after the entry of the structural check: a passed check
  appends its description to \<^verbatim>\<open>checks_passed\<close>, a failed one to \<^verbatim>\<open>checks_failed\<close>,
  whatever the outcomes of the checks before it. The six entries are all there is; the
  result is valid exactly when \<^verbatim>\<open>checks_failed\<close> is empty, its message is "Proof is VALID"
  then and "Proof is INVALID" otherwise, and the result is appended to the verifier's log.
\<close>

theorem verify_runs_all_checks:
  assumes "check_proof_structure proof"
    and "verify_checks lib V proof ([''Proof structure is valid''], []) = Inr lg"
  shows "\<exists>ok2 ok3 ok4 ok5 ok6 bits r.
      verify_trace_commitment proof = Inr ok2 \<and>
      verify_constraints V proof = Inr ok3 \<and>
      verify_fri_layers proof = Inr ok4 \<and>
      verify_challenge lib proof = Inr ok5 \<and>
      py_ge_int (dict_get proof ''security_bits'' (PInt 0)) (int (security_level V)) = Inr ok6 \<and>
      proof ''security_bits'' = Some bits \<and>
      verify lib V proof = (r, V\<lparr>verification_log := verification_log V @ [r]\<rparr>) \<and>
      checks_passed r =
        [''Proof structure is valid'']
          @ (if ok2 then [''Trace commitment verified''] else [])
          @ (if ok3 then [''Constraint evaluations verified''] else [])
          @ (if ok4 then [''FRI proof layers verified''] else [])
          @ (if ok5 then [''Challenge generation verified''] else [])
          @ (if ok6 then [''Security level adequate ('' @ py_str lib bits @ '' bits)''] else []) \<and>
      checks_failed r =
          (if ok2 then [] else [''Trace commitment verification failed''])
          @ (if ok3 then [] else [''Constraint evaluation verification failed''])
          @ (if ok4 then [] else [''FRI proof layer verification failed''])
          @ (if ok5 then [] else [''Challenge verification failed''])
          @ (if ok6 then [] else [''Insufficient security level ('' @ py_str lib bits @ '' bits)'']) \<and>
      length (checks_passed r) + length (checks_failed r) = 6 \<and>
      valid r = (checks_failed r = []) \<and>
      message r = (if checks_failed r = [] then ''Proof is VALID'' else ''Proof is INVALID'')"
proof -
  from verify_checks_Inr [OF assms(2)] obtain ok2 ok3 ok4 ok5 ok6 bits where
    c2: "verify_trace_commitment proof = Inr ok2" and c3: "verify_constraints V proof = Inr ok3"
    and c4: "verify_fri_layers proof = Inr ok4" and c5: "verify_challenge lib proof = Inr ok5"
    and c6: "py_ge_int (dict_get proof ''security_bits'' (PInt 0)) (int (security_level V)) = Inr ok6"
    and sb: "proof ''security_bits'' = Some bits"
    and lg: "lg = ([''Proof structure is valid'']
              @ (if ok2 then [''Trace commitment verified''] else [])
              @ (if ok3 then [''Constraint evaluations verified''] else [])
              @ (if ok4 then [''FRI proof layers verified''] else [])
              @ (if ok5 then [''Challenge generation verified''] else [])
              @ (if ok6 then [''Security level adequate ('' @ py_str lib bits @ '' bits)''] else []),
              (if ok2 then [] else [''Trace commitment verification failed''])
              @ (if ok3 then [] else [''Constraint evaluation verification failed''])
              @ (if ok4 then [] else [''FRI proof layer verification failed''])
              @ (if ok5 then [] else [''Challenge verification failed''])
              @ (if ok6 then [] else [''Insufficient security level ('' @ py_str lib bits @ '' bits)'']))"
    by auto
  define r where "r = \<lparr>valid = (snd lg = []),
      message = (if snd lg = [] then ''Proof is VALID'' else ''Proof is INVALID''),
      checks_passed = fst lg, checks_failed = snd lg\<rparr>"
  have v: "verify lib V proof = (r, V\<lparr>verification_log := verification_log V @ [r]\<rparr>)"
    using assms by (simp add: verify_def r_def Let_def)
  have pr: "checks_passed r = fst lg" and fr: "checks_failed r = snd lg"
    by (simp_all add: r_def)
  have len: "length (checks_passed r) + length (checks_failed r) = 6"
    unfolding pr fr lg by simp
  have vr: "valid r = (checks_failed r = [])"
    and mr: "message r = (if checks_failed r = [] then ''Proof is VALID'' else ''Proof is INVALID'')"
    by (simp_all add: r_def)
  show ?thesis
    apply (rule exI [of _ ok2], rule exI [of _ ok3], rule exI [of _ ok4], rule exI [of _ ok5],
        rule exI [of _ ok6], rule exI [of _ bits], rule exI [of _ r])
    apply (intro conjI)
              apply (rule c2, rule c3, rule c4, rule c5, rule c6, rule sb, rule v)
        apply (simp only: pr lg fst_conv)
       apply (simp only: fr lg snd_conv)
      apply (rule len, rule vr, rule mr)
    done
qed

text \<open>
  The witness is a proof whose commitment and challenge fail their checks: the three
  checks after the failed commitment check, and the one after the failed challenge check,
  are recorded all the same.
\<close>

theorem verify_runs_all_checks_witness:
  "\<exists>r. fst (verify demo_lib \<lparr>security_level = 128, verification_log = []\<rparr>
       [''version'' \<mapsto> PStr ''1.0'', ''computation'' \<mapsto> PStr ''fibonacci'', ''result'' \<mapsto> PInt 5,
        ''trace_commitment'' \<mapsto> PStr ''xyz'',
        ''constraint_evaluations'' \<mapsto> PList [PInt 1], ''challenge'' \<mapsto> PStr ''bad'',
        ''fri_layers'' \<mapsto> PList [PStr (replicate 64 CHR ''b'')],
        ''security_bits'' \<mapsto> PInt 128]) = r \<and>
      length (checks_passed r) + length (checks_failed r) = 6 \<and>
      valid r = (checks_failed r = [])"
proof -
  let ?proof = "[''version'' \<mapsto> PStr ''1.0'', ''computation'' \<mapsto> PStr ''fibonacci'', ''result'' \<mapsto> PInt 5,
        ''trace_commitment'' \<mapsto> PStr ''xyz'',
        ''constraint_evaluations'' \<mapsto> PList [PInt 1], ''challenge'' \<mapsto> PStr ''bad'',
        ''fri_layers'' \<mapsto> PList [PStr (replicate 64 CHR ''b'')],
        ''security_bits'' \<mapsto> PInt 128]"
  let ?V = "\<lparr>security_level = 128, verification_log = []\<rparr>"
  have s: "check_proof_structure ?proof"
    by (simp add: check_proof_structure_def required_fields_def isinstance_list_def)
  have ne: "''bad'' \<noteq> replicate 16 c" for c :: char
    by (simp add: list_eq_iff_nth_eq)
  have k: "verify_checks demo_lib ?V ?proof ([''Proof structure is valid''], []) =
      Inr ([''Proof structure is valid'', ''Constraint evaluations verified'',
            ''FRI proof layers verified'', ''Security level adequate (128 bits)''],
           [''Trace commitment verification failed'', ''Challenge verification failed''])"
    by (simp add: verify_checks_def verify_trace_commitment_def verify_constraints_def
        verify_fri_layers_def verify_challenge_def dict_get_def py_len_def py_iter_def
        py_truthy_def py_ge_int_def py_add_str_def py_str_def str_int_def str_nat.simps
        record_check_def demo_lib_def hex_chars_def list_all_iff ne)
  from verify_runs_all_checks [OF s k] show ?thesis by (metis fst_conv)
qed

section \<open>Generated proofs under verification\<close>

lemma generate_proof_lookup:
  "fst (generate_proof lib now P r tr) ''version'' = Some (PStr ''1.0'')"
  "fst (generate_proof lib now P r tr) ''computation'' = Some (PStr ''fibonacci'')"
  "fst (generate_proof lib now P r tr) ''result'' = Some (PInt r)"
  "fst (generate_proof lib now P r tr) ''trace_commitment'' = Some (PStr (commit_to_trace lib tr))"
  "fst (generate_proof lib now P r tr) ''constraint_evaluations'' =
     Some (PList (map PInt (take 10 (evaluate_constraints P tr))))"
  "fst (generate_proof lib now P r tr) ''challenge'' =
     Some (PStr (generate_challenge lib P (commit_to_trace lib tr)))"
  "fst (generate_proof lib now P r tr) ''fri_layers'' =
     Some (PList (map PStr (fri_commit lib (evaluate_constraints P tr)
        (generate_challenge lib P (commit_to_trace lib tr)))))"
  "fst (generate_proof lib now P r tr) ''security_bits'' =
     Some (PInt (int (STARKProver.security_level P)))"
  by (simp_all add: generate_proof_def Let_def)

lemma generate_proof_structure:
  "check_proof_structure (fst (generate_proof lib now P r tr))"
  by (simp add: check_proof_structure_def required_fields_def generate_proof_lookup
      isinstance_list_def)

lemma verify_challenge_generated:
  "verify_challenge lib (fst (generate_proof lib now P r tr)) = Inr True"
  by (simp add: verify_challenge_def dict_get_def generate_proof_lookup py_add_str_def
      py_str_def generate_challenge_def Let_def)

lemma verify_checks_generated:
  "verify_checks lib V (fst (generate_proof lib now P r tr)) log1 =
     Inr (record_check (security_level V \<le> STARKProver.security_level P)
            (''Security level adequate ('' @ str_int (int (STARKProver.security_level P)) @ '' bits)'')
            (''Insufficient security level ('' @ str_int (int (STARKProver.security_level P)) @ '' bits)'')
         (record_check True ''Challenge generation verified'' ''Challenge verification failed''
         (record_check
            (list_all hex_string (fri_commit lib (evaluate_constraints P tr)
               (generate_challenge lib P (commit_to_trace lib tr))))
            ''FRI proof layers verified'' ''FRI proof layer verification failed''
         (record_check
            (take 10 (evaluate_constraints P tr) \<noteq> [] \<and>
             list_all (within_level (security_level V)) (take 10 (evaluate_constraints P tr)))
            ''Constraint evaluations verified'' ''Constraint evaluation verification failed''
         (record_check (hex_string (commit_to_trace lib tr))
            ''Trace commitment verified'' ''Trace commitment verification failed'' log1)))))"
proof -
  let ?proof = "fst (generate_proof lib now P r tr)"
  have c2: "verify_trace_commitment ?proof = Inr (hex_string (commit_to_trace lib tr))"
    by (rule verify_trace_commitment_str) (rule generate_proof_lookup)
  have c3: "verify_constraints V ?proof =
      Inr (take 10 (evaluate_constraints P tr) \<noteq> [] \<and>
           list_all (within_level (security_level V)) (take 10 (evaluate_constraints P tr)))"
    by (rule verify_constraints_ints) (rule generate_proof_lookup)
  have ne: "fri_commit lib evs ch \<noteq> []" for evs ch
    using length_fri_commit_loop [of lib 3 ch "[]" evs] by (auto simp: fri_commit_def)
  have c4: "verify_fri_layers ?proof =
      Inr (list_all hex_string (fri_commit lib (evaluate_constraints P tr)
               (generate_challenge lib P (commit_to_trace lib tr))))"
    using verify_fri_layers_strs [of ?proof "fri_commit lib (evaluate_constraints P tr)
               (generate_challenge lib P (commit_to_trace lib tr))"] ne
    by (simp add: generate_proof_lookup)
  have c5: "verify_challenge lib ?proof = Inr True"
    by (rule verify_challenge_generated)
  have c6: "py_ge_int (dict_get ?proof ''security_bits'' (PInt 0)) (int (security_level V)) =
      Inr (security_level V \<le> STARKProver.security_level P)"
    by (simp add: dict_get_def generate_proof_lookup py_ge_int_def)
  show ?thesis
    by (simp add: verify_checks_def c2 c3 c4 c5 c6 generate_proof_lookup py_str_def)
qed

text \<open>
  C2. For every proof that \<^verbatim>\<open>generate_proof\<close> assembles, the stored challenge is the
  first 16 characters of the digest of the stored commitment followed by the decimal
  string of the stored \<^verbatim>\<open>security_bits\<close>, the verifier's recomputation
  (\<^verbatim>\<open>_verify_challenge\<close>) returns true on it, and \<^verbatim>\<open>verify\<close> records check 5 as passed,
  for a verifier of any security level (so also of the prover's).
\<close>

theorem challenge_round_trip:
  "fst (generate_proof lib now P r tr) ''trace_commitment'' = Some (PStr (commit_to_trace lib tr)) \<and>
   fst (generate_proof lib now P r tr) ''security_bits'' =
     Some (PInt (int (STARKProver.security_level P))) \<and>
   fst (generate_proof lib now P r tr) ''challenge'' =
     Some (PStr (take 16 (sha256_hexdigest lib
        (commit_to_trace lib tr @ str_int (int (STARKProver.security_level P)))))) \<and>
   verify_challenge lib (fst (generate_proof lib now P r tr)) = Inr True \<and>
   (\<forall>V. ''Challenge generation verified'' \<in>
          set (checks_passed (fst (verify lib V (fst (generate_proof lib now P r tr))))))"
  by (simp add: generate_proof_lookup verify_challenge_generated verify_def
      generate_proof_structure verify_checks_generated record_check_cases Let_def
      generate_challenge_def)

section \<open>The result field\<close>

lemma check_proof_structure_result:
  "proof ''result'' \<noteq> None \<Longrightarrow>
     check_proof_structure (proof(''result'' \<mapsto> v)) = check_proof_structure proof"
  unfolding check_proof_structure_iff by (auto simp: required_fields_def)

lemma checks_ignore_result:
  "verify_trace_commitment (proof(''result'' \<mapsto> v)) = verify_trace_commitment proof"
  "verify_constraints V (proof(''result'' \<mapsto> v)) = verify_constraints V proof"
  "verify_fri_layers (proof(''result'' \<mapsto> v)) = verify_fri_layers proof"
  "verify_challenge lib (proof(''result'' \<mapsto> v)) = verify_challenge lib proof"
  "dict_get (proof(''result'' \<mapsto> v)) ''security_bits'' d = dict_get proof ''security_bits'' d"
  "(proof(''result'' \<mapsto> v)) ''security_bits'' = proof ''security_bits''"
  by (simp_all add: verify_trace_commitment_def verify_constraints_def
      verify_fri_layers_def verify_challenge_def dict_get_def)

lemma verify_checks_result:
  "verify_checks lib V (proof(''result'' \<mapsto> v)) log1 = verify_checks lib V proof log1"
  unfolding verify_checks_def checks_ignore_result ..

lemma verify_result_update:
  "proof ''result'' \<noteq> None \<Longrightarrow> verify lib V (proof(''result'' \<mapsto> v)) = verify lib V proof"
  by (simp add: verify_def check_proof_structure_result verify_checks_result)

lemma fri_commit_loop_shape:
  "sha256_shape lib \<Longrightarrow> list_all hex_string layers \<Longrightarrow>
     list_all hex_string (fri_commit_loop lib k challenge layers current_evals)"
  by (induction k arbitrary: layers current_evals) (simp_all add: Let_def sha256_shape_def)

lemma evaluate_constraints_within_level:
  "list_all (within_level (STARKProver.security_level P)) (evaluate_constraints P tr)"
  by (simp add: evaluate_constraints_def evaluate_constraints_loop_map list_all_iff
      within_level_def)

lemma list_all_take: "list_all Q xs \<Longrightarrow> list_all Q (take k xs)"
  by (auto simp: list_all_iff dest: in_set_takeD)

lemma verify_generated_valid:
  assumes shape: "sha256_shape lib"
    and ne: "steps tr \<noteq> []"
    and lv: "security_level V = STARKProver.security_level P"
  shows "valid (fst (verify lib V (fst (generate_proof lib now P r tr))))"
proof -
  have e: "evaluate_constraints P tr \<noteq> []"
    using ne by (simp add: evaluate_constraints_def evaluate_constraints_loop_map)
  have w: "list_all (within_level (STARKProver.security_level P))
             (take 10 (evaluate_constraints P tr))"
    by (rule list_all_take) (rule evaluate_constraints_within_level)
  have f: "list_all hex_string (fri_commit lib (evaluate_constraints P tr)
               (generate_challenge lib P (commit_to_trace lib tr)))"
    unfolding fri_commit_def using shape by (rule fri_commit_loop_shape) simp
  have c: "hex_string (commit_to_trace lib tr)"
    using shape by (simp add: sha256_shape_def commit_to_trace_def)
  show ?thesis
    by (simp add: verify_def generate_proof_structure verify_checks_generated e w f c lv
        record_check_cases Let_def)
qed

lemma demo_lib_shape: "sha256_shape demo_lib"
proof -
  have "length hex_chars = 16"
    by (simp add: hex_chars_def)
  then have "hex_chars ! (k mod 16) \<in> set hex_chars" for k
    by (intro nth_mem) simp
  then show ?thesis
    by (simp add: sha256_shape_def demo_lib_def hex_string_def list_all_iff)
qed

text \<open>
  C1. Let a proof be assembled by \<^verbatim>\<open>generate_proof\<close> from the result and the trace that
  \<^verbatim>\<open>compute_fibonacci\<close> returns, and let its \<^verbatim>\<open>result\<close> be replaced by any integer. The
  commitment, the challenge and the FRI layers are untouched, and \<^verbatim>\<open>verify\<close> returns on
  the changed proof what it returns on the original, for a verifier of any security
  level. For a verifier of the prover's security level that outcome is valid, given
  that the digest function returns 64 hexadecimal characters, as SHA-256 does.
\<close>

theorem verdict_independent_of_result:
  assumes "sha256_shape lib"
    and "compute_fibonacci room n = Inr (r, tr)"
    and "proof = fst (generate_proof lib now P r tr)"
    and "proof' = proof(''result'' \<mapsto> PInt r')"
  shows "proof' ''trace_commitment'' = proof ''trace_commitment'' \<and>
         proof' ''challenge'' = proof ''challenge'' \<and>
         proof' ''fri_layers'' = proof ''fri_layers'' \<and>
         (\<forall>V. verify lib V proof' = verify lib V proof) \<and>
         (\<forall>V. security_level V = STARKProver.security_level P \<longrightarrow>
              valid (fst (verify lib V proof)) \<and> valid (fst (verify lib V proof')))"
proof -
  have res: "proof ''result'' \<noteq> None"
    by (simp add: assms(3) generate_proof_lookup)
  have same: "verify lib V proof' = verify lib V proof" for V
    unfolding assms(4) using res by (rule verify_result_update)
  have ne: "steps tr \<noteq> []"
    using assms(2) by (rule compute_fibonacci_steps_nonempty)
  have ok: "valid (fst (verify lib V proof))"
    if "security_level V = STARKProver.security_level P" for V
    unfolding assms(3) using assms(1) ne that by (rule verify_generated_valid)
  show ?thesis
    using same ok by (simp add: assms(4))
qed

theorem verdict_independent_of_result_witness:
  "verify demo_lib \<lparr>security_level = 128, verification_log = []\<rparr>
     ((fst (generate_proof demo_lib 0 \<lparr>STARKProver.security_level = 128, proof_data = Map.empty\<rparr> 1
         (snd (projr (compute_fibonacci 999 2)))))(''result'' \<mapsto> PInt 42)) =
   verify demo_lib \<lparr>security_level = 128, verification_log = []\<rparr>
     (fst (generate_proof demo_lib 0 \<lparr>STARKProver.security_level = 128, proof_data = Map.empty\<rparr> 1
         (snd (projr (compute_fibonacci 999 2))))) \<and>
   valid (fst (verify demo_lib \<lparr>security_level = 128, verification_log = []\<rparr>
     ((fst (generate_proof demo_lib 0 \<lparr>STARKProver.security_level = 128, proof_data = Map.empty\<rparr> 1
         (snd (projr (compute_fibonacci 999 2)))))(''result'' \<mapsto> PInt 42))))"
proof -
  have h: "compute_fibonacci 999 2 = Inr (1, snd (projr (compute_fibonacci 999 2)))"
    by (simp add: compute_fibonacci_def fib_with_trace.simps)
  from verdict_independent_of_result [OF demo_lib_shape h refl refl,
      of 0 "\<lparr>STARKProver.security_level = 128, proof_data = Map.empty\<rparr>" 42]
  show ?thesis by simp
qed

end
